theory Spec2Isabelle
  imports Main "HOL-Library.Word"
begin

section \<open>Exceptions\<close>

text \<open>
  \<open>uid_t\<close> is an unsigned 32-bit integer.

  The three exception classes of the sources. \<open>DBusException\<close> carries the name of the
  throwing class and the raw error text (what \<open>getRawError()\<close> hands back);
  \<open>ReadyException\<close> derives from \<open>DBusException\<close> with the class name fixed to
  "ReadyException", so it only carries the error text; \<open>DBusCredentialsException\<close>
  carries the rejected requester, the quark domain and the error text.
\<close>

type_synonym uid_t = "32 word"

datatype exn =
    DBusException string string
  | ReadyException string
  | DBusCredentialsException uid_t string string

text \<open>\<open>catch (DBusException& excp)\<close> matches the class and its subclass.\<close>

fun is_DBusException :: "exn \<Rightarrow> bool" where
  "is_DBusException (DBusException cls err) = True"
| "is_DBusException (ReadyException err) = True"
| "is_DBusException (DBusCredentialsException requester quarkdomain err) = False"

fun getRawError :: "exn \<Rightarrow> string" where
  "getRawError (DBusException cls err) = err"
| "getRawError (ReadyException err) = err"
| "getRawError (DBusCredentialsException requester quarkdomain err) = err"


section \<open>The D-Bus proxy\<close>

text \<open>
  \<open>DBusProxy::Call\<close> is declared in \<open>proxy.hpp\<close>, which is not among the sources at
  hand, so what the bus answers is a field of the proxy: for a method and its argument,
  \<open>reply\<close> is either the raw error text of the \<open>DBusException\<close> that \<open>Call\<close> throws
  (\<open>Inl\<close>) or the value \<open>Call\<close> returns (\<open>Inr\<close>). Every \<open>Call\<close> that is issued is
  appended to \<open>calls\<close> (method name and argument), so that "the bus was queried" can
  be observed.
\<close>

record 'r DBusProxy =
  reply :: "string \<Rightarrow> string \<Rightarrow> string + 'r"
  calls :: "(string \<times> string) list"

definition Call :: "'r DBusProxy \<Rightarrow> string \<Rightarrow> string \<Rightarrow> 'r DBusProxy \<times> (exn + 'r)" where
  "Call p method arg =
     (p\<lparr>calls := calls p @ [(method, arg)]\<rparr>,
      case reply p method arg of
        Inl raw \<Rightarrow> Inl (DBusException ''DBusProxy'' raw)
      | Inr res \<Rightarrow> Inr res)"

section \<open>connection-creds.hpp: DBusConnectionCreds\<close>

text \<open>The bus daemon answers \<open>GetConnectionUnixUser\<close> with a tuple \<open>(u)\<close>: the
  value returned is the uid.\<close>

type_synonym DBusConnectionCreds = "uid_t DBusProxy"

definition GetUID :: "DBusConnectionCreds \<Rightarrow> string
    \<Rightarrow> DBusConnectionCreds \<times> (exn + uid_t)" where
  "GetUID d busname =
     (case Call d ''GetConnectionUnixUser'' busname of
        (d', Inr ret) \<Rightarrow> (d', Inr ret)
      | (d', Inl excp) \<Rightarrow>
          (if is_DBusException excp
           then (d', Inl (DBusException ''DBusConnectionCreds''
                   (''Failed to retrieve UID for bus name '' @ [CHR 0x27] @ busname
                      @ [CHR 0x27] @ '': '' @ getRawError excp)))
           else (d', Inl excp)))"

section \<open>connection-creds.hpp: DBusCredentials\<close>

record DBusCredentials =
  owner :: uid_t
  acl_public :: bool
  acl_list :: "uid_t list"

definition DBusCredentials_new :: "uid_t \<Rightarrow> DBusCredentials" where
  "DBusCredentials_new own = \<lparr>owner = own, acl_public = False, acl_list = []\<rparr>"

definition SetPublicAccess :: "DBusCredentials \<Rightarrow> bool \<Rightarrow> DBusCredentials" where
  "SetPublicAccess c public_access = c\<lparr>acl_public := public_access\<rparr>"

definition GetAccessList :: "DBusCredentials \<Rightarrow> uid_t list" where
  "GetAccessList c = acl_list c"

text \<open>
  The loop \<open>for (auto& acl_uid : acl_list) if (acl_uid == uid) ...\<close>, which
  \<open>GrantAccess\<close>, \<open>RevokeAccess\<close> and \<open>check_acl\<close> each run: \<open>True\<close> when the body's
  \<open>if\<close> fires (the loop is left at once), \<open>False\<close> when the loop runs to its end.
\<close>

fun acl_loop :: "uid_t list \<Rightarrow> uid_t \<Rightarrow> bool" where
  "acl_loop [] uid = False"
| "acl_loop (acl_uid # rest) uid = (if acl_uid = uid then True else acl_loop rest uid)"

text \<open>\<open>acl_list.erase(std::remove(begin, end, uid), end)\<close>: every element equal to
  \<open>uid\<close> goes, the others keep their order.\<close>

fun erase_remove :: "uid_t list \<Rightarrow> uid_t \<Rightarrow> uid_t list" where
  "erase_remove [] uid = []"
| "erase_remove (x # xs) uid = (if x = uid then erase_remove xs uid else x # erase_remove xs uid)"

definition GrantAccess :: "DBusCredentials \<Rightarrow> uid_t \<Rightarrow> DBusCredentials \<times> (exn + unit)" where
  "GrantAccess c uid =
     (if acl_loop (acl_list c) uid
      then (c, Inl (DBusCredentialsException (owner c)
                      ''net.openvpn.v3.error.acl.duplicate''
                      ''UID already granted access''))
      else (c\<lparr>acl_list := acl_list c @ [uid]\<rparr>, Inr ()))"

definition RevokeAccess :: "DBusCredentials \<Rightarrow> uid_t \<Rightarrow> DBusCredentials \<times> (exn + unit)" where
  "RevokeAccess c uid =
     (if acl_loop (acl_list c) uid
      then (c\<lparr>acl_list := erase_remove (acl_list c) uid\<rparr>, Inr ())
      else (c, Inl (DBusCredentialsException (owner c)
                      ''net.openvpn.v3.error.acl.nogrant''
                      ''UID is not listed in access list'')))"

definition check_acl :: "DBusConnectionCreds \<Rightarrow> DBusCredentials \<Rightarrow> string \<Rightarrow> bool \<Rightarrow> bool
    \<Rightarrow> DBusConnectionCreds \<times> (exn + unit)" where
  "check_acl d c sender owner_only allow_root =
     (if acl_public c \<and> \<not> owner_only then (d, Inr ())
      else case GetUID d sender of
        (d', Inl excp) \<Rightarrow> (d', Inl excp)
      | (d', Inr sender_uid) \<Rightarrow>
          (if sender_uid = owner c then (d', Inr ())
           else if allow_root \<and> sender_uid = 0 then (d', Inr ())
           else if owner_only
             then (d', Inl (DBusCredentialsException sender_uid
                              ''net.openvpn.v3.error.acl.denied''
                              ''Owner access denied''))
           else if acl_loop (acl_list c) sender_uid then (d', Inr ())
           else (d', Inl (DBusCredentialsException sender_uid
                            ''net.openvpn.v3.error.acl.denied''
                            ''Access denied''))))"

definition CheckACL :: "DBusConnectionCreds \<Rightarrow> DBusCredentials \<Rightarrow> string \<Rightarrow> bool
    \<Rightarrow> DBusConnectionCreds \<times> (exn + unit)" where
  "CheckACL d c sender allow_root = check_acl d c sender False allow_root"

definition CheckOwnerAccess :: "DBusConnectionCreds \<Rightarrow> DBusCredentials \<Rightarrow> string \<Rightarrow> bool
    \<Rightarrow> DBusConnectionCreds \<times> (exn + unit)" where
  "CheckOwnerAccess d c sender allow_root = check_acl d c sender True allow_root"

section \<open>Sequences of grants and revocations\<close>

text \<open>
  A caller that grants and revokes in some order: an operation that throws leaves the
  object as it was (the exception is raised before anything is written), and the caller
  goes on with the next operation.
\<close>

datatype acl_op = Grant uid_t | Revoke uid_t

fun apply_op :: "DBusCredentials \<Rightarrow> acl_op \<Rightarrow> DBusCredentials" where
  "apply_op c (Grant uid) = fst (GrantAccess c uid)"
| "apply_op c (Revoke uid) = fst (RevokeAccess c uid)"

fun run_ops :: "DBusCredentials \<Rightarrow> acl_op list \<Rightarrow> DBusCredentials" where
  "run_ops c [] = c"
| "run_ops c (x # xs) = run_ops (apply_op c x) xs"

section \<open>proxy-sessionmgr.hpp: LogEvent\<close>

text \<open>
  The enumerations \<open>LogGroup\<close> and \<open>LogCategory\<close> and the tables \<open>LogGroup_str\<close> and
  \<open>LogCategory_str\<close> are declared in \<open>log/log-helpers.hpp\<close>, which is not among the
  sources at hand. An enumeration value is either the \<open>UNDEFINED\<close> enumerator or the
  cast of a wire value; the two tables are parameters (\<open>log_helpers\<close>), with one entry
  for each enumerator, so that the size of a table is the size of the enumeration.
\<close>

datatype LogGroup = LogGroup_UNDEFINED | LogGroup_cast "32 word"

datatype LogCategory = LogCategory_UNDEFINED | LogCategory_cast "32 word"

record log_helpers =
  LogGroup_str :: "string list"
  LogCategory_str :: "string list"

record LogEvent =
  group :: LogGroup
  group_str :: string
  category :: LogCategory
  category_str :: string
  message :: string

text \<open>The dictionary a log event arrives in, with its three entries
  \<open>log_group\<close> (uint32), \<open>log_category\<close> (uint32) and \<open>log_message\<close> (string).\<close>

record GVariant_logevent =
  log_group :: "32 word"
  log_category :: "32 word"
  log_message :: string

definition reset :: "LogEvent \<Rightarrow> LogEvent" where
  "reset ev = ev\<lparr>group := LogGroup_UNDEFINED, group_str := [],
                 category := LogCategory_UNDEFINED, category_str := [],
                 message := []\<rparr>"

text \<open>
  \<open>g_variant_get_string\<close> hands back the bytes and their number \<open>len\<close>;
  \<open>std::string(const char *)\<close> copies up to the first NUL byte. The object is written
  field by field, so it is returned also when the length check throws.
\<close>

definition Parse :: "log_helpers \<Rightarrow> LogEvent \<Rightarrow> GVariant_logevent \<Rightarrow> LogEvent \<times> (exn + unit)" where
  "Parse h ev logevent =
     (let v = log_group logevent;
          ev1 = (if 0 < v \<and> unat v < length (LogGroup_str h)
                 then ev\<lparr>group := LogGroup_cast v, group_str := LogGroup_str h ! unat v\<rparr>
                 else ev);
          v = log_category logevent;
          ev2 = (if 0 < v \<and> unat v < length (LogCategory_str h)
                 then ev1\<lparr>category := LogCategory_cast v,
                          category_str := LogCategory_str h ! unat v\<rparr>
                 else ev1);
          len = length (log_message logevent);
          ev3 = ev2\<lparr>message := takeWhile (\<lambda>ch. ch \<noteq> CHR 0x00) (log_message logevent)\<rparr>
      in if len \<noteq> length (message ev3)
         then (ev3, Inl (DBusException ''OpenVPN3SessionProxy''
                 ''Failed retrieving log event message text (inconsistent length)''))
         else (ev3, Inr ()))"

text \<open>The constructor \<open>LogEvent(GVariant *status)\<close>: \<open>reset()\<close>, then \<open>Parse(status)\<close>;
  \<open>ev\<close> is the object's storage before the constructor's body runs.\<close>

definition LogEvent_new :: "log_helpers \<Rightarrow> LogEvent \<Rightarrow> GVariant_logevent \<Rightarrow> LogEvent \<times> (exn + unit)" where
  "LogEvent_new h ev status = Parse h (reset ev) status"

section \<open>proxy-sessionmgr.hpp: OpenVPN3SessionProxy\<close>

text \<open>For the calls of the session proxy only whether the result pointer is \<open>NULL\<close>
  matters: \<open>None\<close> is \<open>NULL\<close>.\<close>

type_synonym OpenVPN3SessionProxy = "unit option DBusProxy"

definition simple_call :: "OpenVPN3SessionProxy \<Rightarrow> string \<Rightarrow> string
    \<Rightarrow> OpenVPN3SessionProxy \<times> (exn + unit)" where
  "simple_call p method errstr =
     (case Call p method [] of
        (p', Inl excp) \<Rightarrow> (p', Inl excp)
      | (p', Inr None) \<Rightarrow> (p', Inl (DBusException ''OpenVPN3SessionProxy'' errstr))
      | (p', Inr (Some res)) \<Rightarrow> (p', Inr ()))"

definition Ready :: "OpenVPN3SessionProxy \<Rightarrow> OpenVPN3SessionProxy \<times> (exn + unit)" where
  "Ready p =
     (case simple_call p ''Ready'' ''Connection not ready to connect yet'' of
        (p', Inr u) \<Rightarrow> (p', Inr ())
      | (p', Inl excp) \<Rightarrow>
          (if is_DBusException excp then (p', Inl (ReadyException (getRawError excp)))
           else (p', Inl excp)))"

section \<open>Example objects\<close>

text \<open>
  A bus on which \<open>:1.42\<close> belongs to uid 1000, \<open>:1.43\<close> to uid 2000 and \<open>:1.44\<close> to
  root, while every other bus name has no owner; tables for an enumeration of eight
  log groups and nine log categories; a log event that holds an earlier record.
\<close>

definition example_bus :: DBusConnectionCreds where
  "example_bus = \<lparr>reply = (\<lambda>method busname.
       if busname = '':1.42'' then Inr 1000
       else if busname = '':1.43'' then Inr 2000
       else if busname = '':1.44'' then Inr 0
       else Inl ''NameHasNoOwner''), calls = []\<rparr>"

definition example_helpers :: log_helpers where
  "example_helpers =
     \<lparr>LogGroup_str = [''UNDEFINED'', ''Master Process'', ''Config Manager'', ''Session Manager'',
                      ''Backend Starter'', ''Logger'', ''Backend Session Process'', ''Client''],
      LogCategory_str = [''UNDEFINED'', ''DEBUG'', ''VERB2'', ''VERB1'', ''INFO'', ''WARNING'',
                         ''ERROR'', ''CRITICAL'', ''FATAL'']\<rparr>"

definition example_event :: LogEvent where
  "example_event = \<lparr>group = LogGroup_cast 3, group_str = ''Session Manager'',
                     category = LogCategory_cast 4, category_str = ''INFO'',
                     message = ''earlier''\<rparr>"

section \<open>Basic facts\<close>

lemma acl_loop_iff: "acl_loop xs uid \<longleftrightarrow> uid \<in> set xs"
  by (induction xs) auto

lemma erase_remove_filter: "erase_remove xs uid = filter (\<lambda>x. x \<noteq> uid) xs"
  by (induction xs) auto

subsection \<open>Identity resolution\<close>

lemma GetUID_Inr:
  "snd (GetUID d sender) = Inr uid \<Longrightarrow>
   GetUID d sender = (d\<lparr>calls := calls d @ [(''GetConnectionUnixUser'', sender)]\<rparr>, Inr uid)"
  by (auto simp: GetUID_def Call_def split: sum.splits)

lemma GetUID_Inl:
  "snd (GetUID d sender) = Inl e \<Longrightarrow>
   GetUID d sender = (d\<lparr>calls := calls d @ [(''GetConnectionUnixUser'', sender)]\<rparr>, Inl e)"
  by (auto simp: GetUID_def Call_def split: sum.splits)

lemma GetUID_calls:
  "calls (fst (GetUID d sender)) = calls d @ [(''GetConnectionUnixUser'', sender)]"
  by (auto simp: GetUID_def Call_def split: sum.splits)

lemma GetUID_error_kind:
  "snd (GetUID d sender) = Inl e \<Longrightarrow> \<exists>cls err. e = DBusException cls err"
  by (auto simp: GetUID_def Call_def split: sum.splits)

subsection \<open>The granted list under grants and revocations\<close>

lemma GrantAccess_list:
  "acl_list (fst (GrantAccess c uid))
     = (if uid \<in> set (acl_list c) then acl_list c else acl_list c @ [uid])"
  by (simp add: GrantAccess_def acl_loop_iff)

lemma RevokeAccess_list:
  "acl_list (fst (RevokeAccess c uid)) = filter (\<lambda>x. x \<noteq> uid) (acl_list c)"
proof (cases "uid \<in> set (acl_list c)")
  case True
  then show ?thesis by (simp add: RevokeAccess_def acl_loop_iff erase_remove_filter)
next
  case False
  then have "filter (\<lambda>x. x \<noteq> uid) (acl_list c) = acl_list c"
    by (intro filter_True) auto
  with False show ?thesis by (simp add: RevokeAccess_def acl_loop_iff)
qed

lemma apply_op_distinct: "distinct (acl_list c) \<Longrightarrow> distinct (acl_list (apply_op c x))"
  by (cases x) (simp_all add: GrantAccess_list RevokeAccess_list)

lemma run_ops_distinct: "distinct (acl_list c) \<Longrightarrow> distinct (acl_list (run_ops c xs))"
  by (induction xs arbitrary: c) (simp_all add: apply_op_distinct)

subsection \<open>What Ready throws\<close>

lemma Ready_result:
  "snd (Ready p) =
     (case reply p ''Ready'' [] of
        Inl raw \<Rightarrow> Inl (ReadyException raw)
      | Inr None \<Rightarrow> Inl (ReadyException ''Connection not ready to connect yet'')
      | Inr (Some res) \<Rightarrow> Inr ())"
  by (simp add: Ready_def simple_call_def Call_def split: sum.splits option.splits)

subsection \<open>What Parse writes\<close>

lemma length_takeWhile_all:
  "length xs = length (takeWhile P xs) \<longleftrightarrow> (\<forall>x \<in> set xs. P x)"
  by (induction xs) auto

lemma Parse_keeps_group:
  "\<not> (0 < log_group w \<and> unat (log_group w) < length (LogGroup_str h)) \<Longrightarrow>
   group (fst (Parse h ev w)) = group ev \<and> group_str (fst (Parse h ev w)) = group_str ev"
  by (auto simp: Parse_def Let_def)

lemma Parse_keeps_category:
  "\<not> (0 < log_category w \<and> unat (log_category w) < length (LogCategory_str h)) \<Longrightarrow>
   category (fst (Parse h ev w)) = category ev
   \<and> category_str (fst (Parse h ev w)) = category_str ev"
  by (auto simp: Parse_def Let_def)

lemma Parse_group:
  "group (fst (Parse h ev w))
     = (if 0 < log_group w \<and> unat (log_group w) < length (LogGroup_str h)
        then LogGroup_cast (log_group w) else group ev)"
  by (simp add: Parse_def Let_def)

lemma Parse_category:
  "category (fst (Parse h ev w))
     = (if 0 < log_category w \<and> unat (log_category w) < length (LogCategory_str h)
        then LogCategory_cast (log_category w) else category ev)"
  by (simp add: Parse_def Let_def)

lemma Parse_message:
  "message (fst (Parse h ev w)) = takeWhile (\<lambda>ch. ch \<noteq> CHR 0x00) (log_message w)"
  by (simp add: Parse_def Let_def)

lemma Parse_result:
  "snd (Parse h ev w) = Inr () \<longleftrightarrow> CHR 0x00 \<notin> set (log_message w)"
  by (simp add: Parse_def Let_def length_takeWhile_all)

lemma reset_fields:
  "group (reset ev) = LogGroup_UNDEFINED" "group_str (reset ev) = []"
  "category (reset ev) = LogCategory_UNDEFINED" "category_str (reset ev) = []"
  by (simp_all add: reset_def)

section \<open>The access check\<close>

text \<open>
  C1. When the bus resolves the sender to \<open>uid\<close>, the general check \<open>CheckACL\<close>
  (\<open>check_acl\<close> with \<open>owner_only = false\<close>) succeeds if and only if the object is
  public, or \<open>uid\<close> is the owner, or root is allowed and \<open>uid\<close> is 0, or \<open>uid\<close> is in the
  granted list; in every other case it throws the access-denied
  \<open>DBusCredentialsException\<close>, which carries \<open>uid\<close>.
\<close>

theorem CheckACL_decision:
  assumes "snd (GetUID d sender) = Inr uid"
  shows "(snd (CheckACL d c sender allow_root) = Inr ()
            \<longleftrightarrow> acl_public c \<or> uid = owner c \<or> (allow_root \<and> uid = 0)
                  \<or> uid \<in> set (acl_list c))
       \<and> (snd (CheckACL d c sender allow_root) \<noteq> Inr ()
            \<longrightarrow> snd (CheckACL d c sender allow_root)
                  = Inl (DBusCredentialsException uid ''net.openvpn.v3.error.acl.denied''
                           ''Access denied''))"
  using GetUID_Inr [OF assms]
  by (simp add: CheckACL_def check_acl_def acl_loop_iff)

theorem CheckACL_decision_witness:
  "snd (CheckACL example_bus (DBusCredentials_new 1000\<lparr>acl_list := [2000]\<rparr>) '':1.43'' False) = Inr ()
   \<and> snd (CheckACL example_bus (DBusCredentials_new 1000) '':1.43'' False)
       = Inl (DBusCredentialsException 2000 ''net.openvpn.v3.error.acl.denied'' ''Access denied'')"
proof -
  have r: "snd (GetUID example_bus '':1.43'') = Inr 2000"
    by (simp add: GetUID_def Call_def example_bus_def)
  show ?thesis
    using CheckACL_decision [OF r, of "DBusCredentials_new 1000\<lparr>acl_list := [2000]\<rparr>" False]
          CheckACL_decision [OF r, of "DBusCredentials_new 1000" False]
    by (simp add: DBusCredentials_new_def)
qed

text \<open>
  C2. On a public object, a sender whose uid is neither the owner nor (with root
  allowed) 0 passes \<open>CheckACL\<close> and is refused by \<open>CheckOwnerAccess\<close> with the
  owner-access-denied exception carrying its uid; and whatever the public-access
  attribute is set to, \<open>CheckOwnerAccess\<close> gives the same outcome.
\<close>

theorem owner_check_ignores_public:
  assumes "acl_public c"
      and "snd (GetUID d sender) = Inr uid"
      and "uid \<noteq> owner c"
      and "\<not> (allow_root \<and> uid = 0)"
  shows "snd (CheckACL d c sender allow_root) = Inr ()
       \<and> snd (CheckOwnerAccess d c sender allow_root)
           = Inl (DBusCredentialsException uid ''net.openvpn.v3.error.acl.denied''
                    ''Owner access denied'')
       \<and> (\<forall>b. CheckOwnerAccess d (c\<lparr>acl_public := b\<rparr>) sender allow_root
               = CheckOwnerAccess d c sender allow_root)"
  using assms(1,3,4) GetUID_Inr [OF assms(2)]
  by (auto simp: CheckACL_def CheckOwnerAccess_def check_acl_def)

theorem owner_check_ignores_public_witness:
  "snd (CheckACL example_bus (SetPublicAccess (DBusCredentials_new 1000) True) '':1.43'' True) = Inr ()
   \<and> snd (CheckOwnerAccess example_bus (SetPublicAccess (DBusCredentials_new 1000) True) '':1.43'' True)
       = Inl (DBusCredentialsException 2000 ''net.openvpn.v3.error.acl.denied''
                ''Owner access denied'')"
proof -
  have r: "snd (GetUID example_bus '':1.43'') = Inr 2000"
    by (simp add: GetUID_def Call_def example_bus_def)
  have p: "acl_public (SetPublicAccess (DBusCredentials_new 1000) True)"
    by (simp add: SetPublicAccess_def)
  have o: "(2000 :: uid_t) \<noteq> owner (SetPublicAccess (DBusCredentials_new 1000) True)"
    by (simp add: SetPublicAccess_def DBusCredentials_new_def)
  have z: "\<not> (True \<and> (2000 :: uid_t) = 0)" by simp
  show ?thesis
    using owner_check_ignores_public [OF p r o z] by simp
qed

text \<open>
  C10. On a public object \<open>CheckACL\<close> returns success with the proxy untouched: no
  call to the bus is issued, so no identity is resolved. The outcome is therefore the
  same for every sender and every state of the bus, also for a sender the bus cannot
  resolve.
\<close>

theorem public_check_skips_resolution:
  assumes "acl_public c"
  shows "CheckACL d c sender allow_root = (d, Inr ())
       \<and> snd (CheckACL d c sender allow_root) = snd (CheckACL d' c sender' allow_root')"
  using assms by (simp add: CheckACL_def check_acl_def)

theorem public_check_skips_resolution_witness:
  "snd (GetUID example_bus '':1.99'')
     = Inl (DBusException ''DBusConnectionCreds''
              (''Failed to retrieve UID for bus name '' @ [CHR 0x27] @ '':1.99'' @ [CHR 0x27]
               @ '': NameHasNoOwner''))
   \<and> CheckACL example_bus (SetPublicAccess (DBusCredentials_new 1000) True) '':1.99'' False
       = (example_bus, Inr ())
   \<and> snd (CheckACL example_bus (SetPublicAccess (DBusCredentials_new 1000) True) '':1.99'' False)
       = snd (CheckACL example_bus (SetPublicAccess (DBusCredentials_new 1000) True) '':1.43'' False)"
proof -
  have p: "acl_public (SetPublicAccess (DBusCredentials_new 1000) True)"
    by (simp add: SetPublicAccess_def)
  have g: "snd (GetUID example_bus '':1.99'')
     = Inl (DBusException ''DBusConnectionCreds''
              (''Failed to retrieve UID for bus name '' @ [CHR 0x27] @ '':1.99'' @ [CHR 0x27]
               @ '': NameHasNoOwner''))"
    by (simp add: GetUID_def Call_def example_bus_def)
  show ?thesis
    by (rule conjI [OF g public_check_skips_resolution
          [OF p, of example_bus "'':1.99''" False example_bus "'':1.43''" False]])
qed

text \<open>
  C7. When \<open>GetUID\<close> fails for the sender with an exception \<open>e\<close>, a check that
  resolves the sender ends with that very exception, never with success:
  \<open>CheckOwnerAccess\<close> always resolves the sender, and so does \<open>CheckACL\<close> whenever it
  issues a call to the bus at all (it issues none on a public object, where it returns
  before \<open>GetUID\<close>). In the other direction, with such a sender a check of either kind
  that ends in success has issued no call to the bus: success is never the outcome of
  a failed resolution.
\<close>

theorem lookup_failure_aborts_check:
  assumes "snd (GetUID d sender) = Inl e"
  shows "snd (CheckOwnerAccess d c sender allow_root) = Inl e
       \<and> (calls (fst (CheckACL d c sender allow_root)) \<noteq> calls d
            \<longrightarrow> snd (CheckACL d c sender allow_root) = Inl e)
       \<and> (\<forall>owner_only. snd (check_acl d c sender owner_only allow_root) = Inr ()
            \<longrightarrow> calls (fst (check_acl d c sender owner_only allow_root)) = calls d)"
  using GetUID_Inl [OF assms]
  by (auto simp: CheckACL_def CheckOwnerAccess_def check_acl_def)

theorem lookup_failure_aborts_check_witness:
  "snd (CheckOwnerAccess example_bus (SetPublicAccess (DBusCredentials_new 1000) True) '':1.99'' True)
     = Inl (DBusException ''DBusConnectionCreds''
              (''Failed to retrieve UID for bus name '' @ [CHR 0x27] @ '':1.99'' @ [CHR 0x27]
               @ '': NameHasNoOwner''))
   \<and> snd (CheckACL example_bus (DBusCredentials_new 1000) '':1.99'' True)
     = Inl (DBusException ''DBusConnectionCreds''
              (''Failed to retrieve UID for bus name '' @ [CHR 0x27] @ '':1.99'' @ [CHR 0x27]
               @ '': NameHasNoOwner''))
   \<and> snd (check_acl example_bus (SetPublicAccess (DBusCredentials_new 1000) True)
            '':1.99'' False True) = Inr ()
   \<and> calls (fst (check_acl example_bus (SetPublicAccess (DBusCredentials_new 1000) True)
                   '':1.99'' False True)) = calls example_bus"
proof -
  have g: "snd (GetUID example_bus '':1.99'')
     = Inl (DBusException ''DBusConnectionCreds''
              (''Failed to retrieve UID for bus name '' @ [CHR 0x27] @ '':1.99'' @ [CHR 0x27]
               @ '': NameHasNoOwner''))"
    by (simp add: GetUID_def Call_def example_bus_def)
  have q: "calls (fst (CheckACL example_bus (DBusCredentials_new 1000) '':1.99'' True))
             \<noteq> calls example_bus"
    by (simp add: CheckACL_def check_acl_def DBusCredentials_new_def GetUID_def Call_def
          example_bus_def)
  from lookup_failure_aborts_check [OF g, of "SetPublicAccess (DBusCredentials_new 1000) True" True]
  have a: "snd (CheckOwnerAccess example_bus (SetPublicAccess (DBusCredentials_new 1000) True) '':1.99'' True)
     = Inl (DBusException ''DBusConnectionCreds''
              (''Failed to retrieve UID for bus name '' @ [CHR 0x27] @ '':1.99'' @ [CHR 0x27]
               @ '': NameHasNoOwner''))"
    by (rule conjunct1)
  from lookup_failure_aborts_check [OF g, of "DBusCredentials_new 1000" True] q
  have b: "snd (CheckACL example_bus (DBusCredentials_new 1000) '':1.99'' True)
     = Inl (DBusException ''DBusConnectionCreds''
              (''Failed to retrieve UID for bus name '' @ [CHR 0x27] @ '':1.99'' @ [CHR 0x27]
               @ '': NameHasNoOwner''))"
    by blast
  have s: "snd (check_acl example_bus (SetPublicAccess (DBusCredentials_new 1000) True)
                  '':1.99'' False True) = Inr ()"
    by (simp add: check_acl_def SetPublicAccess_def)
  from lookup_failure_aborts_check [OF g, of "SetPublicAccess (DBusCredentials_new 1000) True" True] s
  have n: "calls (fst (check_acl example_bus (SetPublicAccess (DBusCredentials_new 1000) True)
                   '':1.99'' False True)) = calls example_bus"
    by blast
  from a b s n show ?thesis by (intro conjI)
qed

section \<open>Granting and revoking\<close>

text \<open>
  C3. Granting the owner's own uid is to fail with the duplicate-grant exception, and
  the owner is never to be an entry of the granted list; the comment on
  \<open>GetAccessList\<close> says as much: "The owner UID is not enlisted". \<open>GrantAccess\<close>,
  however, compares the uid with the entries of the granted list only, never with the
  owner: on a new object of owner 1000, granting uid 1000 returns normally, the owner
  becomes an entry of the list, and \<open>GetAccessList\<close> hands it out.
\<close>

theorem grant_owner_is_enlisted:
  "GrantAccess (DBusCredentials_new 1000) 1000
     = (\<lparr>owner = 1000, acl_public = False, acl_list = [1000]\<rparr>, Inr ())
   \<and> GetAccessList (fst (GrantAccess (DBusCredentials_new 1000) 1000))
       = [owner (fst (GrantAccess (DBusCredentials_new 1000) 1000))]"
  by (simp add: GrantAccess_def GetAccessList_def DBusCredentials_new_def)

text \<open>
  C4. \<open>GrantAccess\<close> of a uid that is in the granted list throws the duplicate-grant
  exception, \<open>RevokeAccess\<close> of a uid that is not in the list throws the no-such-grant
  exception, and in both cases the object, and with it the granted list, is as before.
\<close>

theorem failed_grant_revoke_unchanged:
  "(u \<in> set (acl_list c)
      \<longrightarrow> GrantAccess c u
            = (c, Inl (DBusCredentialsException (owner c) ''net.openvpn.v3.error.acl.duplicate''
                         ''UID already granted access'')))
   \<and> (v \<notin> set (acl_list c)
      \<longrightarrow> RevokeAccess c v
            = (c, Inl (DBusCredentialsException (owner c) ''net.openvpn.v3.error.acl.nogrant''
                         ''UID is not listed in access list'')))"
  by (simp add: GrantAccess_def RevokeAccess_def acl_loop_iff)

theorem failed_grant_revoke_unchanged_witness:
  "GrantAccess (DBusCredentials_new 1000\<lparr>acl_list := [2000, 3000]\<rparr>) 3000
     = (DBusCredentials_new 1000\<lparr>acl_list := [2000, 3000]\<rparr>,
        Inl (DBusCredentialsException 1000 ''net.openvpn.v3.error.acl.duplicate''
               ''UID already granted access''))
   \<and> RevokeAccess (DBusCredentials_new 1000\<lparr>acl_list := [2000, 3000]\<rparr>) 4000
     = (DBusCredentials_new 1000\<lparr>acl_list := [2000, 3000]\<rparr>,
        Inl (DBusCredentialsException 1000 ''net.openvpn.v3.error.acl.nogrant''
               ''UID is not listed in access list''))"
  using failed_grant_revoke_unchanged
          [of 3000 "DBusCredentials_new 1000\<lparr>acl_list := [2000, 3000]\<rparr>" 4000]
  by (simp add: DBusCredentials_new_def)

text \<open>
  C5. For a uid that is not in the granted list, \<open>GrantAccess\<close> succeeds, and
  \<open>RevokeAccess\<close> of the same uid right after succeeds and gives back the object as it
  was before the grant: the same granted list, element by element and in the same
  order. This holds in every state, in particular in those where each uid appears at
  most once.
\<close>

theorem grant_then_revoke_restores:
  assumes "uid \<notin> set (acl_list c)"
  shows "snd (GrantAccess c uid) = Inr ()
       \<and> RevokeAccess (fst (GrantAccess c uid)) uid = (c, Inr ())"
proof -
  from assms have "filter (\<lambda>x. x \<noteq> uid) (acl_list c) = acl_list c"
    by (intro filter_True) auto
  with assms show ?thesis
    by (simp add: GrantAccess_def RevokeAccess_def acl_loop_iff erase_remove_filter)
qed

theorem grant_then_revoke_restores_witness:
  "distinct (acl_list (DBusCredentials_new 1000\<lparr>acl_list := [3000, 2000]\<rparr>))
   \<and> fst (GrantAccess (DBusCredentials_new 1000\<lparr>acl_list := [3000, 2000]\<rparr>) 2500)
       = DBusCredentials_new 1000\<lparr>acl_list := [3000, 2000, 2500]\<rparr>
   \<and> RevokeAccess (fst (GrantAccess (DBusCredentials_new 1000\<lparr>acl_list := [3000, 2000]\<rparr>) 2500)) 2500
       = (DBusCredentials_new 1000\<lparr>acl_list := [3000, 2000]\<rparr>, Inr ())"
proof -
  have h: "(2500 :: uid_t) \<notin> set (acl_list (DBusCredentials_new 1000\<lparr>acl_list := [3000, 2000]\<rparr>))"
    by (simp add: DBusCredentials_new_def)
  show ?thesis
    using grant_then_revoke_restores [OF h]
    by (simp add: DBusCredentials_new_def GrantAccess_def)
qed

text \<open>
  C6. Starting from an empty granted list, after every sequence of \<open>GrantAccess\<close> and
  \<open>RevokeAccess\<close> operations (failing ones included) each uid appears at most once in
  the granted list.
\<close>

theorem grant_revoke_sequence_distinct:
  assumes "acl_list c = []"
  shows "distinct (acl_list (run_ops c xs))"
  using assms by (intro run_ops_distinct) simp

theorem grant_revoke_sequence_distinct_witness:
  "acl_list (DBusCredentials_new 1000) = []
   \<and> distinct (acl_list (run_ops (DBusCredentials_new 1000)
        [Grant 5, Grant 6, Grant 5, Revoke 7, Revoke 5, Grant 5, Grant 1000]))
   \<and> acl_list (run_ops (DBusCredentials_new 1000)
        [Grant 5, Grant 6, Grant 5, Revoke 7, Revoke 5, Grant 5, Grant 1000]) = [6, 5, 1000]"
proof -
  have h: "acl_list (DBusCredentials_new 1000) = []"
    by (simp add: DBusCredentials_new_def)
  have v: "acl_list (run_ops (DBusCredentials_new 1000)
        [Grant 5, Grant 6, Grant 5, Revoke 7, Revoke 5, Grant 5, Grant 1000]) = [6, 5, 1000]"
    by (simp add: GrantAccess_def RevokeAccess_def DBusCredentials_new_def)
  from grant_revoke_sequence_distinct [OF h] h v show ?thesis by blast
qed

section \<open>The session proxy\<close>

text \<open>
  C8. A failing \<open>Ready()\<close> is to tell "the backend needs more information" apart from
  "access denied" by the kind of the exception alone; the comment on \<open>ReadyException\<close>
  reserves it for a \<open>Ready()\<close> call that indicates the backend needs more information
  from the front-end. \<open>Ready()\<close>, however, catches every \<open>DBusException\<close> of the call and
  throws a \<open>ReadyException\<close> in its place. An access denial that the service sends back
  over the bus (the error \<open>net.openvpn.v3.error.acl.denied\<close> that the access check
  raises), a \<open>NULL\<close> result and any other failure of the call all arrive as
  \<open>ReadyException\<close>; they differ in the error text they carry, not in their kind.
\<close>

theorem Ready_wraps_access_denied:
  "snd (Ready \<lparr>reply = (\<lambda>method arg.
                   Inl ''GDBus.Error:net.openvpn.v3.error.acl.denied: Access denied''),
               calls = []\<rparr>)
     = Inl (ReadyException ''GDBus.Error:net.openvpn.v3.error.acl.denied: Access denied'')
   \<and> snd (Ready \<lparr>reply = (\<lambda>method arg. Inr None), calls = []\<rparr>)
     = Inl (ReadyException ''Connection not ready to connect yet'')
   \<and> snd (Ready \<lparr>reply = (\<lambda>method arg. Inr (Some ())), calls = []\<rparr>) = Inr ()"
  by (simp add: Ready_result)

text \<open>
  C9. A log event is built by \<open>reset()\<close> followed by \<open>Parse()\<close>. \<open>Parse\<close> writes the
  group (the category) only for a wire value inside the enumeration; for a wire value
  past the end of the enumeration the field stays what \<open>reset\<close> made it, the
  \<open>UNDEFINED\<close> enumerator with the empty name. The rest of the record is parsed all the
  same: the other enumeration field follows its own wire value, the message is
  stored, and whether \<open>Parse\<close> throws depends on the message alone.
\<close>

theorem Parse_out_of_range:
  assumes "Parse h (reset ev) w = (ev', r)"
  shows "(length (LogGroup_str h) \<le> unat (log_group w)
            \<longrightarrow> group ev' = LogGroup_UNDEFINED \<and> group_str ev' = [])
       \<and> (length (LogCategory_str h) \<le> unat (log_category w)
            \<longrightarrow> category ev' = LogCategory_UNDEFINED \<and> category_str ev' = [])
       \<and> group ev' = (if 0 < log_group w \<and> unat (log_group w) < length (LogGroup_str h)
                       then LogGroup_cast (log_group w) else LogGroup_UNDEFINED)
       \<and> category ev' = (if 0 < log_category w
                               \<and> unat (log_category w) < length (LogCategory_str h)
                          then LogCategory_cast (log_category w) else LogCategory_UNDEFINED)
       \<and> message ev' = takeWhile (\<lambda>ch. ch \<noteq> CHR 0x00) (log_message w)
       \<and> (r = Inr () \<longleftrightarrow> CHR 0x00 \<notin> set (log_message w))"
proof -
  from assms have ev': "ev' = fst (Parse h (reset ev) w)" and r: "r = snd (Parse h (reset ev) w)"
    by simp_all
  have g: "length (LogGroup_str h) \<le> unat (log_group w)
            \<longrightarrow> group ev' = LogGroup_UNDEFINED \<and> group_str ev' = []"
  proof
    assume "length (LogGroup_str h) \<le> unat (log_group w)"
    then have "\<not> (0 < log_group w \<and> unat (log_group w) < length (LogGroup_str h))"
      by simp
    from Parse_keeps_group [OF this, of "reset ev"]
    show "group ev' = LogGroup_UNDEFINED \<and> group_str ev' = []"
      by (simp add: ev' reset_fields)
  qed
  have c: "length (LogCategory_str h) \<le> unat (log_category w)
            \<longrightarrow> category ev' = LogCategory_UNDEFINED \<and> category_str ev' = []"
  proof
    assume "length (LogCategory_str h) \<le> unat (log_category w)"
    then have "\<not> (0 < log_category w \<and> unat (log_category w) < length (LogCategory_str h))"
      by simp
    from Parse_keeps_category [OF this, of "reset ev"]
    show "category ev' = LogCategory_UNDEFINED \<and> category_str ev' = []"
      by (simp add: ev' reset_fields)
  qed
  have g': "group ev' = (if 0 < log_group w \<and> unat (log_group w) < length (LogGroup_str h)
                       then LogGroup_cast (log_group w) else LogGroup_UNDEFINED)"
    unfolding ev' Parse_group reset_fields ..
  have c': "category ev' = (if 0 < log_category w
                               \<and> unat (log_category w) < length (LogCategory_str h)
                          then LogCategory_cast (log_category w) else LogCategory_UNDEFINED)"
    unfolding ev' Parse_category reset_fields ..
  have m: "message ev' = takeWhile (\<lambda>ch. ch \<noteq> CHR 0x00) (log_message w)"
    unfolding ev' by (rule Parse_message)
  have ok: "r = Inr () \<longleftrightarrow> CHR 0x00 \<notin> set (log_message w)"
    unfolding r by (rule Parse_result)
  from g c g' c' m ok show ?thesis by (intro conjI)
qed

theorem Parse_out_of_range_witness:
  "length (LogGroup_str example_helpers) \<le> unat (99 :: 32 word)
   \<and> length (LogCategory_str example_helpers) \<le> unat (9 :: 32 word)
   \<and> group (fst (Parse example_helpers (reset example_event)
         \<lparr>log_group = 99, log_category = 9, log_message = ''hello''\<rparr>)) = LogGroup_UNDEFINED
   \<and> category (fst (Parse example_helpers (reset example_event)
         \<lparr>log_group = 99, log_category = 9, log_message = ''hello''\<rparr>)) = LogCategory_UNDEFINED
   \<and> message (fst (Parse example_helpers (reset example_event)
         \<lparr>log_group = 99, log_category = 9, log_message = ''hello''\<rparr>)) = ''hello''
   \<and> snd (Parse example_helpers (reset example_event)
         \<lparr>log_group = 99, log_category = 9, log_message = ''hello''\<rparr>) = Inr ()"
proof -
  let ?w = "\<lparr>log_group = 99, log_category = 9, log_message = ''hello''\<rparr>"
  let ?res = "Parse example_helpers (reset example_event) ?w"
  have p: "?res = (fst ?res, snd ?res)"
    by simp
  have hg: "length (LogGroup_str example_helpers) \<le> unat (99 :: 32 word)"
    by (simp add: example_helpers_def)
  have hc: "length (LogCategory_str example_helpers) \<le> unat (9 :: 32 word)"
    by (simp add: example_helpers_def)
  have hg': "length (LogGroup_str example_helpers) \<le> unat (log_group ?w)"
    using hg by simp
  have hc': "length (LogCategory_str example_helpers) \<le> unat (log_category ?w)"
    using hc by simp
  have nul: "CHR 0x00 \<notin> set (log_message ?w)"
    by simp
  note t = Parse_out_of_range [OF p]
  have g: "group (fst ?res) = LogGroup_UNDEFINED"
    using t [THEN conjunct1, THEN mp, OF hg'] by (rule conjunct1)
  have c: "category (fst ?res) = LogCategory_UNDEFINED"
    using t [THEN conjunct2, THEN conjunct1, THEN mp, OF hc'] by (rule conjunct1)
  have m: "message (fst ?res) = ''hello''"
    using t [THEN conjunct2, THEN conjunct2, THEN conjunct2, THEN conjunct2, THEN conjunct1]
    by simp
  have r: "snd ?res = Inr ()"
    using t [THEN conjunct2, THEN conjunct2, THEN conjunct2, THEN conjunct2, THEN conjunct2] nul
    by (rule iffD2)
  from hg hc g c m r show ?thesis by (intro conjI)
qed

end

